theory Spec2Isabelle
  imports Main
begin

section \<open>Data model of the request-racing client (ApiProvider, ApiRace)\<close>

text \<open>
  JavaScript values that the code only passes through are kept small: numbers that the
  code uses as list indices, durations and status codes are integers or naturals
  (fractional numbers and NaN are outside the model), strings are \<open>string\<close>, a
  \<open>Dict\<close> is an association list updated in place, and a thrown value is an
  \<open>Error\<close> object with a message.
\<close>

datatype error = Error string | TypeError string | URIError string

fun message :: "error \<Rightarrow> string" where
  "message (Error m) = m"
| "message (TypeError m) = m"
| "message (URIError m) = m"

datatype json =
    JNull
  | JBool bool
  | JNum int
  | JStr string
  | JArr "json list"
  | JObj "(string \<times> json) list"

text \<open>\<open>!!v\<close> and \<open>typeof v === 'object'\<close> on a structured value.\<close>

fun truthy :: "json \<Rightarrow> bool" where
  "truthy JNull = False"
| "truthy (JBool b) = b"
| "truthy (JNum n) = (n \<noteq> 0)"
| "truthy (JStr s) = (s \<noteq> [])"
| "truthy (JArr xs) = True"
| "truthy (JObj kvs) = True"

fun typeof_object :: "json \<Rightarrow> bool" where
  "typeof_object JNull = True"
| "typeof_object (JArr xs) = True"
| "typeof_object (JObj kvs) = True"
| "typeof_object v = False"

text \<open>\<open>d[key] = value\<close> on a plain object: replace the value of an existing key, or add
  the key at the end.\<close>

fun dict_set :: "string \<Rightarrow> 'v \<Rightarrow> (string \<times> 'v) list \<Rightarrow> (string \<times> 'v) list" where
  "dict_set k v [] = [(k, v)]"
| "dict_set k v ((k', v') # d) = (if k' = k then (k, v) # d else (k', v') # dict_set k v d)"

text \<open>The class \<open>ApiProvider\<close>: its private fields, named as in \<open>ProviderProps\<close>
  (the HTTP method is \<open>http_method\<close>). Only the priority can be changed after
  construction.\<close>

record ApiProvider =
  priority :: "int option"
  http_method :: string
  url :: string
  pathname :: string
  search :: "(string \<times> string) list option"
  body :: "json option"
  headers :: "(string \<times> string) list option"
  name :: string
  responseType :: string

text \<open>The setter \<open>set priority(value)\<close> ignores a value that is not a number; the
  argument is a number or some other value.\<close>

datatype priority_arg = NumberArg int | NonNumberArg

fun set_priority :: "priority_arg \<Rightarrow> ApiProvider \<Rightarrow> ApiProvider" where
  "set_priority NonNumberArg this = this"
| "set_priority (NumberArg value) this = this\<lparr>priority := Some value\<rparr>"

definition removePriority :: "ApiProvider \<Rightarrow> ApiProvider" where
  "removePriority this = this\<lparr>priority := None\<rparr>"

subsection \<open>Ordering of the providers\<close>

text \<open>\<open>results.splice(start, 0, item)\<close>: a negative start counts from the end and is
  clamped at 0, a start beyond the length is clamped to the length.\<close>

definition splice_insert :: "int \<Rightarrow> 'a \<Rightarrow> 'a list \<Rightarrow> 'a list" where
  "splice_insert start item results =
     (let len = int (length results);
          k = (if start < 0 then max (len + start) 0 else min start len)
      in take (nat k) results @ item # drop (nat k) results)"

text \<open>\<open>!provider.priority\<close>: true for \<open>undefined\<close> and for the number 0. As the start
  of a splice, \<open>undefined\<close> would count as 0.\<close>

fun not_priority :: "int option \<Rightarrow> bool" where
  "not_priority None = True"
| "not_priority (Some n) = (n = 0)"

fun to_integer :: "int option \<Rightarrow> int" where
  "to_integer None = 0"
| "to_integer (Some n) = n"

text \<open>\<open>#orderProviders\<close>: the body of the loop, then the loop over the stored
  providers, starting from the empty array.\<close>

definition orderProviders_step :: "ApiProvider list \<Rightarrow> ApiProvider \<Rightarrow> ApiProvider list" where
  "orderProviders_step results provider =
     (if not_priority (priority provider) then results @ [provider]
      else splice_insert (to_integer (priority provider)) provider results)"

definition orderProviders :: "ApiProvider list \<Rightarrow> ApiProvider list" where
  "orderProviders providers = foldl orderProviders_step [] providers"

text \<open>The ordering as the specification words it: a provider with no priority is
  appended, a provider with priority \<open>P\<close>, 0 included, is inserted at index \<open>P\<close>.\<close>

definition spec_order_step :: "ApiProvider list \<Rightarrow> ApiProvider \<Rightarrow> ApiProvider list" where
  "spec_order_step results provider =
     (case priority provider of
        None \<Rightarrow> results @ [provider]
      | Some P \<Rightarrow> splice_insert P provider results)"

definition spec_positional_insertion :: "ApiProvider list \<Rightarrow> ApiProvider list" where
  "spec_positional_insertion providers = foldl spec_order_step [] providers"

subsection \<open>The transport boundary\<close>

text \<open>A \<open>Response\<close> as the code reads it: the status, the header entries in iteration
  order, and what each body-reading method settles with when it is called.\<close>

datatype form_entry_value = FormString string | FormFile string

fun toString :: "form_entry_value \<Rightarrow> string" where
  "toString (FormString s) = s"
| "toString (FormFile filename) = ''[object File]''"

record Response =
  status :: nat
  res_headers :: "(string \<times> string) list"
  res_json :: "error + json"
  res_formData :: "error + (string \<times> form_entry_value) list"
  res_text :: "error + string"

record ProviderResponse =
  payload :: json
  provider :: string
  responseStatus :: nat
  responseHeaders :: "(string \<times> string) list"

text \<open>A promise returned by the transport either stays pending for ever or settles after
  some milliseconds, fulfilled or rejected. Awaiting gives an outcome; awaiting a promise
  that never settles does not return.\<close>

datatype 'a promise = Pending | Settles nat "error + 'a"

datatype 'a outcome = Hangs | Rejected error | Resolved 'a

fun await :: "'a promise \<Rightarrow> 'a outcome" where
  "await Pending = Hangs"
| "await (Settles d (Inl e)) = Rejected e"
| "await (Settles d (Inr v)) = Resolved v"

record fetch_request =
  fetch_url :: string
  fetch_body :: "string option"
  fetch_signal :: bool
  fetch_method :: string
  fetch_headers :: "(string \<times> string) list option"

text \<open>What one attempt does to the outside: the transport call (with or without an
  \<open>AbortSignal\<close>), \<open>ac.abort()\<close>, and the body-reading methods of the response.\<close>

datatype event =
    FetchCall fetch_request
  | ProxyCall ApiProvider bool
  | Abort
  | ReadJson
  | ReadFormData
  | ReadText

type_synonym 'w ProxyFn = "ApiProvider \<Rightarrow> bool \<Rightarrow> 'w \<Rightarrow> Response promise \<times> 'w"

text \<open>What the program takes from its platform and from the typesdk package, none of it
  in the repository: the URL class, \<open>encodeURIComponent\<close>, \<open>isPlainObject\<close>,
  \<open>jsonSafeStringify\<close>, the global \<open>fetch\<close> acting on the outside world \<open>'w\<close>, and which
  of two promises settling in the same millisecond the scheduler serves first.\<close>

record 'w platform =
  new_URL :: "string \<Rightarrow> string \<Rightarrow> error + string"
  URL_set_search :: "string \<Rightarrow> string \<Rightarrow> string"
  encodeURIComponent :: "string \<Rightarrow> error + string"
  isPlainObject :: "json \<Rightarrow> bool"
  jsonSafeStringify :: "json \<Rightarrow> string option"
  fetch :: "fetch_request \<Rightarrow> 'w \<Rightarrow> Response promise \<times> 'w"
  timer_first_on_tie :: bool

subsection \<open>The getter \<open>http\<close> of a provider\<close>

record HttpProps =
  hp_method :: string
  hp_url :: string
  hp_pathname :: string
  hp_search :: "(string \<times> string) list option"
  hp_body :: "json option"
  hp_headers :: "(string \<times> string) list option"

fun join :: "string \<Rightarrow> string list \<Rightarrow> string" where
  "join sep [] = []"
| "join sep [x] = x"
| "join sep (x # y # ys) = x @ sep @ join sep (y # ys)"

fun encodeSearchParams_loop ::
  "'w platform \<Rightarrow> (string \<times> string) list \<Rightarrow> string list \<Rightarrow> error + string list" where
  "encodeSearchParams_loop plat [] results = Inr results"
| "encodeSearchParams_loop plat ((key, v) # params) results =
     (case encodeURIComponent plat v of
        Inl e \<Rightarrow> Inl e
      | Inr enc \<Rightarrow> encodeSearchParams_loop plat params (results @ [key @ ''='' @ enc]))"

definition encodeSearchParams :: "'w platform \<Rightarrow> (string \<times> string) list \<Rightarrow> error + string" where
  "encodeSearchParams plat params =
     (case encodeSearchParams_loop plat params [] of
        Inl e \<Rightarrow> Inl e
      | Inr results \<Rightarrow> Inr (join ''&'' results))"

definition http :: "'w platform \<Rightarrow> ApiProvider \<Rightarrow> error + HttpProps" where
  "http plat this =
     (case new_URL plat (pathname this) (url this) of
        Inl e \<Rightarrow> Inl e
      | Inr u \<Rightarrow>
          (case (case search this of
                   None \<Rightarrow> Inr u
                 | Some params \<Rightarrow>
                     (case encodeSearchParams plat params of
                        Inl e \<Rightarrow> Inl e
                      | Inr q \<Rightarrow> Inr (URL_set_search plat u q))) of
             Inl e \<Rightarrow> Inl e
           | Inr u' \<Rightarrow>
               Inr \<lparr>hp_method = http_method this, hp_url = u', hp_pathname = pathname this,
                    hp_search = search this, hp_body = body this,
                    hp_headers = headers this\<rparr>))"

subsection \<open>Response normalization\<close>

definition collect_entries :: "(string \<times> 'v) list \<Rightarrow> (string \<times> 'v) list" where
  "collect_entries entries = foldl (\<lambda>d (key, v). dict_set key v d) [] entries"

text \<open>The four branches of \<open>#parseResponse\<close> that return a response build it the same
  way, after their body-reading call: the payload of the branch, the provider's name,
  \<open>res.status\<close>, and the dictionary filled from \<open>res.headers.entries()\<close>.\<close>

definition normalized ::
  "json \<Rightarrow> Response \<Rightarrow> ApiProvider \<Rightarrow> ProviderResponse" where
  "normalized p res prov =
     \<lparr>payload = p, provider = name prov, responseStatus = status res,
      responseHeaders = collect_entries (res_headers res)\<rparr>"

text \<open>\<open>#parseResponse\<close>: the events are the body-reading methods it calls, in order.\<close>

definition parseResponse :: "Response \<Rightarrow> ApiProvider \<Rightarrow> event list \<times> (error + ProviderResponse)" where
  "parseResponse res prov =
     (if responseType prov = ''application/json'' then
        (case res_json res of
           Inl e \<Rightarrow> ([ReadJson], Inl e)
         | Inr p \<Rightarrow> ([ReadJson], Inr (normalized p res prov)))
      else if responseType prov = ''application/octet-stream'' then
        ([], Inl (Error ''Octet stream not supported yet''))
      else if responseType prov = ''application/x-www-form-urlencoded'' then
        (case res_formData res of
           Inl e \<Rightarrow> ([ReadFormData], Inl e)
         | Inr responseBody \<Rightarrow>
             ([ReadFormData],
              Inr (normalized
                     (JObj (collect_entries (map (\<lambda>(key, v). (key, JStr (toString v))) responseBody)))
                     res prov)))
      else if responseType prov = ''text/plain'' then
        (case res_text res of
           Inl e \<Rightarrow> ([ReadText], Inl e)
         | Inr t \<Rightarrow> ([ReadText], Inr (normalized (JObj [(''$text'', JStr t)]) res prov)))
      else if responseType prov = ''x-application/protobuf'' then
        ([], Inl (Error ''Protobuf not supported yet''))
      else if responseType prov = ''text/xml'' then
        (case res_text res of
           Inl e \<Rightarrow> ([ReadText], Inl e)
         | Inr x \<Rightarrow> ([ReadText], Inr (normalized (JObj [(''$xml'', JStr x)]) res prov)))
      else ([], Inl (Error ''Invalid response type'')))"

subsection \<open>The class \<open>ApiRace\<close>\<close>

text \<open>The providers are given as an array, whose elements may fail the \<open>instanceof\<close>
  test, or as a mapping whose values (in the order of \<open>Object.values\<close>) pair a provider
  with a priority. Providers are values here: the entries of a mapping are taken to be
  distinct objects.\<close>

datatype array_item = Instance ApiProvider | NotInstance

fun is_instance :: "array_item \<Rightarrow> bool" where
  "is_instance (Instance p) = True"
| "is_instance NotInstance = False"

fun instances :: "array_item list \<Rightarrow> ApiProvider list" where
  "instances [] = []"
| "instances (Instance p # xs) = p # instances xs"
| "instances (NotInstance # xs) = instances xs"

datatype providers_init =
    ProviderArray "array_item list"
  | ProviderListWithPriority "(string \<times> ApiProvider \<times> priority_arg) list"

record 'w RaceInit =
  providers :: providers_init
  timeoutPerAttempt :: "nat option"
  maxAttempts :: "nat option"
  timeout :: "nat option"
  retryOnFail :: "bool option"
  maxRetry :: "nat option"
  proxy_symbol :: "'w ProxyFn option"
  proxy :: "'w ProxyFn option"

record 'w ApiRace =
  race_providers :: "ApiProvider list"
  race_options :: "'w RaceInit"

fun shortProvidersList :: "(string \<times> ApiProvider \<times> priority_arg) list \<Rightarrow> ApiProvider list" where
  "shortProvidersList [] = []"
| "shortProvidersList ((key, prov, prio) # list) = set_priority prio prov # shortProvidersList list"

definition constructor :: "'w RaceInit \<Rightarrow> error + 'w ApiRace" where
  "constructor props =
     (case providers props of
        ProviderListWithPriority list \<Rightarrow>
          Inr \<lparr>race_providers = shortProvidersList list, race_options = props\<rparr>
      | ProviderArray items \<Rightarrow>
          if \<not> list_all is_instance items then Inl (TypeError ''Invalid providers list'')
          else Inr \<lparr>race_providers = instances items, race_options = props\<rparr>)"

text \<open>\<open>!this._options.timeoutPerAttempt\<close> is true when the option is unset and when it
  is 0; the delay given to \<open>setTimeout\<close> is the option's value;
  \<open>this._options.retryOnFail\<close> is taken when it is \<open>true\<close>.\<close>

fun no_timeoutPerAttempt :: "nat option \<Rightarrow> bool" where
  "no_timeoutPerAttempt None = True"
| "no_timeoutPerAttempt (Some t) = (t = 0)"

fun timer_delay :: "nat option \<Rightarrow> nat" where
  "timer_delay None = 0"
| "timer_delay (Some t) = t"

fun retry_enabled :: "bool option \<Rightarrow> bool" where
  "retry_enabled None = False"
| "retry_enabled (Some b) = b"

text \<open>\<open>Promise.race\<close> of the transport's promise with the timer promise, whose callback
  aborts and rejects after \<open>t\<close> milliseconds. The first to settle decides; the timer is
  never cleared, so after a transport that settled first its \<open>abort()\<close> still runs later,
  outside the attempt: what that does to a body still being read is part of what the
  body-reading methods of the response settle with.\<close>

fun Promise_race :: "bool \<Rightarrow> nat \<Rightarrow> 'a promise \<Rightarrow> event list \<times> 'a outcome" where
  "Promise_race tie t Pending = ([Abort], Rejected (Error ''Request timeout''))"
| "Promise_race tie t (Settles d r) =
     (if d < t \<or> (d = t \<and> \<not> tie) then ([], await (Settles d r))
      else ([Abort], Rejected (Error ''Request timeout'')))"

definition getProxyPromise ::
  "'w platform \<Rightarrow> 'w RaceInit \<Rightarrow> ApiProvider \<Rightarrow> 'w ProxyFn \<Rightarrow> 'w \<Rightarrow> event list \<times> Response outcome \<times> 'w" where
  "getProxyPromise plat opts prov runner w =
     (if no_timeoutPerAttempt (timeoutPerAttempt opts) then
        (case runner prov False w of (pr, w') \<Rightarrow> ([ProxyCall prov False], await pr, w'))
      else
        (case runner prov True w of
           (pr, w') \<Rightarrow>
             (case Promise_race (timer_first_on_tie plat) (timer_delay (timeoutPerAttempt opts)) pr of
                (evs, out) \<Rightarrow> (ProxyCall prov True # evs, out, w'))))"

definition fetch_init :: "HttpProps \<Rightarrow> string option \<Rightarrow> bool \<Rightarrow> fetch_request" where
  "fetch_init h b signal =
     \<lparr>fetch_url = hp_url h, fetch_body = b, fetch_signal = signal,
      fetch_method = hp_method h, fetch_headers = hp_headers h\<rparr>"

definition getPromise ::
  "'w platform \<Rightarrow> 'w RaceInit \<Rightarrow> ApiProvider \<Rightarrow> HttpProps \<Rightarrow> string option \<Rightarrow> 'w
     \<Rightarrow> event list \<times> Response outcome \<times> 'w" where
  "getPromise plat opts prov h b w =
     (case (case proxy_symbol opts of Some p \<Rightarrow> Some p | None \<Rightarrow> proxy opts) of
        Some p \<Rightarrow> getProxyPromise plat opts prov p w
      | None \<Rightarrow>
          if no_timeoutPerAttempt (timeoutPerAttempt opts) then
            (case fetch plat (fetch_init h b False) w of
               (pr, w') \<Rightarrow> ([FetchCall (fetch_init h b False)], await pr, w'))
          else
            (case fetch plat (fetch_init h b True) w of
               (pr, w') \<Rightarrow>
                 (case Promise_race (timer_first_on_tie plat) (timer_delay (timeoutPerAttempt opts)) pr of
                    (evs, out) \<Rightarrow> (FetchCall (fetch_init h b True) # evs, out, w'))))"

text \<open>The body that is sent: the JSON text of a plain object, nothing for any other body.\<close>

definition request_body :: "'w platform \<Rightarrow> HttpProps \<Rightarrow> string option" where
  "request_body plat h =
     (case hp_body h of
        None \<Rightarrow> None
      | Some b \<Rightarrow>
          if truthy b \<and> typeof_object b \<and> isPlainObject plat b then
            (case jsonSafeStringify plat b of Some s \<Rightarrow> Some s | None \<Rightarrow> Some ''{}'')
          else None)"

text \<open>\<open>#request\<close>: one attempt. It returns what it did, how it settled, and the world
  after it.\<close>

definition request ::
  "'w platform \<Rightarrow> 'w RaceInit \<Rightarrow> ApiProvider \<Rightarrow> 'w \<Rightarrow> event list \<times> ProviderResponse outcome \<times> 'w" where
  "request plat opts prov w =
     (case http plat prov of
        Inl e \<Rightarrow> ([], Rejected e, w)
      | Inr h \<Rightarrow>
          (case getPromise plat opts prov h (request_body plat h) w of
             (evs, Hangs, w') \<Rightarrow> (evs, Hangs, w')
           | (evs, Rejected e, w') \<Rightarrow> (evs, Rejected e, w')
           | (evs, Resolved res, w') \<Rightarrow>
               (case parseResponse res prov of
                  (evs', Inl e) \<Rightarrow> (evs @ evs', Rejected e, w')
                | (evs', Inr r) \<Rightarrow> (evs @ evs', Resolved r, w'))))"

text \<open>\<open>#run\<close>: the loop over the ordered providers. The result records every attempt
  made (the provider, what the attempt did, how it settled), the lines given to
  \<open>console.warn\<close>, and the world afterwards.\<close>

record attempt =
  att_provider :: ApiProvider
  att_events :: "event list"
  att_outcome :: "ProviderResponse outcome"

record 'w run_result =
  result :: "ProviderResponse outcome"
  attempts :: "attempt list"
  warnings :: "string list"
  world :: 'w

fun run_loop :: "'w platform \<Rightarrow> 'w RaceInit \<Rightarrow> ApiProvider list \<Rightarrow> 'w \<Rightarrow> 'w run_result" where
  "run_loop plat opts [] w =
     \<lparr>result = Rejected (Error ''No providers available''), attempts = [], warnings = [],
      world = w\<rparr>"
| "run_loop plat opts (prov # rest) w =
     (case request plat opts prov w of
        (evs, Resolved r, w') \<Rightarrow>
          \<lparr>result = Resolved r,
           attempts = [\<lparr>att_provider = prov, att_events = evs, att_outcome = Resolved r\<rparr>],
           warnings = [], world = w'\<rparr>
      | (evs, Hangs, w') \<Rightarrow>
          \<lparr>result = Hangs,
           attempts = [\<lparr>att_provider = prov, att_events = evs, att_outcome = Hangs\<rparr>],
           warnings = [], world = w'\<rparr>
      | (evs, Rejected err, w') \<Rightarrow>
          if retry_enabled (retryOnFail opts) then
            (let R = run_loop plat opts rest w' in
             R\<lparr>attempts :=
                  \<lparr>att_provider = prov, att_events = evs, att_outcome = Rejected err\<rparr> # attempts R,
               warnings :=
                  (''[ApiRace] '' @ name prov @ '' failed with error: '' @ message err) #
                  (''[ApiRace] '' @ name prov @ '' retrying...'') # warnings R\<rparr>)
          else
            \<lparr>result = Rejected err,
             attempts = [\<lparr>att_provider = prov, att_events = evs, att_outcome = Rejected err\<rparr>],
             warnings = [''[ApiRace] '' @ name prov @ '' failed with error: '' @ message err],
             world = w'\<rparr>)"

definition run :: "'w platform \<Rightarrow> 'w ApiRace \<Rightarrow> 'w \<Rightarrow> 'w run_result" where
  "run plat this w =
     run_loop plat (race_options this) (orderProviders (race_providers this)) w"

subsection \<open>Auxiliary notions for the statements\<close>



fun is_body_read :: "event \<Rightarrow> bool" where
  "is_body_read ReadJson = True"
| "is_body_read ReadFormData = True"
| "is_body_read ReadText = True"
| "is_body_read ev = False"

subsection \<open>A concrete platform, transport and providers\<close>

text \<open>A mock transport in the shape of the \<open>$proxy\<close> option: provider \<open>p1\<close> is answered
  after 50 ms with status 200, the header \<open>x-id: 7\<close> and the JSON body \<open>{a: 1}\<close>, every
  other provider is refused after 50 ms. The world counts the transport calls.\<close>

definition mock_response :: Response where
  "mock_response =
     \<lparr>status = 200, res_headers = [(''x-id'', ''7'')],
      res_json = Inr (JObj [(''a'', JNum 1)]),
      res_formData = Inl (TypeError ''Failed to parse body as FormData''),
      res_text = Inr ''{a:1}''\<rparr>"

definition mock_proxy :: "nat ProxyFn" where
  "mock_proxy prov signal w =
     (if name prov = ''p1'' then (Settles 50 (Inr mock_response), Suc w)
      else (Settles 50 (Inl (Error ''connection refused'')), Suc w))"

definition mock_platform :: "nat platform" where
  "mock_platform =
     \<lparr>new_URL = (\<lambda>path base. if base = [] then Inl (TypeError ''Invalid URL'') else Inr (base @ path)),
      URL_set_search = (\<lambda>u q. u @ ''?'' @ q),
      encodeURIComponent = Inr,
      isPlainObject = (\<lambda>v. case v of JObj kvs \<Rightarrow> True | _ \<Rightarrow> False),
      jsonSafeStringify = (\<lambda>v. None),
      fetch = (\<lambda>req w. (Pending, Suc w)),
      timer_first_on_tie = True\<rparr>"

definition mock_provider :: "string \<Rightarrow> int option \<Rightarrow> string \<Rightarrow> ApiProvider" where
  "mock_provider n prio rt =
     \<lparr>priority = prio, http_method = ''GET'', url = ''https://api.test'', pathname = ''/v1'',
      search = None, body = None, headers = None, name = n, responseType = rt\<rparr>"

definition mock_http :: HttpProps where
  "mock_http =
     \<lparr>hp_method = ''GET'', hp_url = ''https://api.test/v1'', hp_pathname = ''/v1'',
      hp_search = None, hp_body = None, hp_headers = None\<rparr>"

definition mock_init :: "ApiProvider list \<Rightarrow> nat option \<Rightarrow> bool option \<Rightarrow> nat RaceInit" where
  "mock_init ps t retry =
     \<lparr>providers = ProviderArray (map Instance ps), timeoutPerAttempt = t, maxAttempts = None,
      timeout = None, retryOnFail = retry, maxRetry = None, proxy_symbol = None,
      proxy = Some mock_proxy\<rparr>"

definition mock_race :: "ApiProvider list \<Rightarrow> nat option \<Rightarrow> bool option \<Rightarrow> nat ApiRace" where
  "mock_race ps t retry = \<lparr>race_providers = ps, race_options = mock_init ps t retry\<rparr>"

definition mock_p0 :: ApiProvider where
  "mock_p0 = mock_provider ''p0'' None ''application/json''"

definition mock_p1 :: ApiProvider where
  "mock_p1 = mock_provider ''p1'' None ''application/json''"

definition mock_p2 :: ApiProvider where
  "mock_p2 = mock_provider ''p2'' (Some 1) ''application/json''"

definition mock_normalized :: ProviderResponse where
  "mock_normalized =
     \<lparr>payload = JObj [(''a'', JNum 1)], provider = ''p1'', responseStatus = 200,
      responseHeaders = [(''x-id'', ''7'')]\<rparr>"

section \<open>Properties of the ordering\<close>

lemma orderProviders_step_nonzero:
  "priority p \<noteq> Some 0 \<Longrightarrow> orderProviders_step rs p = spec_order_step rs p"
  by (cases "priority p") (auto simp: orderProviders_step_def spec_order_step_def)

lemma foldl_steps_agree:
  "\<forall>p \<in> set ps. priority p \<noteq> Some 0 \<Longrightarrow>
   foldl orderProviders_step acc ps = foldl spec_order_step acc ps"
  by (induction ps arbitrary: acc) (simp_all add: orderProviders_step_nonzero)

lemma orderProviders_positional_insertion:
  "\<forall>p \<in> set ps. priority p \<noteq> Some 0 \<Longrightarrow> orderProviders ps = spec_positional_insertion ps"
  by (simp add: orderProviders_def spec_positional_insertion_def foldl_steps_agree)

section \<open>Properties of the response normalization\<close>




section \<open>Properties of the attempt loop\<close>

lemma instances_map_Instance: "instances (map Instance ps) = ps"
  by (induction ps) simp_all

lemma list_all_is_instance: "list_all is_instance (map Instance ps)"
  by (induction ps) simp_all

lemma constructor_mock_init: "constructor (mock_init ps t retry) = Inr (mock_race ps t retry)"
  by (simp add: constructor_def mock_init_def mock_race_def instances_map_Instance
      list_all_is_instance)

lemma run_loop_providers:
  "map att_provider (attempts (run_loop plat opts ps w)) = take (length (attempts (run_loop plat opts ps w))) ps"
  by (induction ps arbitrary: w) (auto split: prod.splits outcome.splits simp: Let_def)

lemma run_loop_length: "length (attempts (run_loop plat opts ps w)) \<le> length ps"
  by (induction ps arbitrary: w) (auto split: prod.splits outcome.splits simp: Let_def)

lemma run_loop_resolved:
  "e \<in> set (attempts (run_loop plat opts ps w)) \<Longrightarrow> att_outcome e = Resolved r \<Longrightarrow>
   result (run_loop plat opts ps w) = Resolved r \<and>
   attempts (run_loop plat opts ps w) \<noteq> [] \<and>
   last (attempts (run_loop plat opts ps w)) = e \<and>
   (\<forall>x \<in> set (butlast (attempts (run_loop plat opts ps w))). \<exists>err. att_outcome x = Rejected err)"
  by (induction ps arbitrary: w) (auto split: prod.splits outcome.splits if_splits simp: Let_def)





lemma run_loop_request:
  "e \<in> set (attempts (run_loop plat opts ps w)) \<Longrightarrow>
   \<exists>w0 w1. request plat opts (att_provider e) w0 = (att_events e, att_outcome e, w1)"
proof (induction ps arbitrary: w)
  case Nil
  then show ?case by simp
next
  case (Cons p ps)
  obtain evs out w' where req: "request plat opts p w = (evs, out, w')"
    by (cases "request plat opts p w") auto
  let ?a = "\<lparr>att_provider = p, att_events = evs, att_outcome = out\<rparr>"
  from Cons.prems req have "e = ?a \<or> e \<in> set (attempts (run_loop plat opts ps w'))"
    by (cases out) (auto simp: Let_def split: if_splits)
  then show ?case
  proof
    assume "e = ?a"
    with req show ?thesis by auto
  next
    assume "e \<in> set (attempts (run_loop plat opts ps w'))"
    then show ?thesis by (rule Cons.IH)
  qed
qed

lemma request_resolved_normalized:
  "request plat opts prov w = (evs, Resolved r, w') \<Longrightarrow>
   \<exists>res evs'. parseResponse res prov = (evs', Inr r)"
  by (auto simp: request_def split: sum.splits prod.splits outcome.splits)

lemma parseResponse_provider:
  "parseResponse res prov = (evs, Inr r) \<Longrightarrow> provider r = name prov"
  by (auto simp: parseResponse_def normalized_def split: if_splits sum.splits)

lemma constructor_frame:
  "constructor (props\<lparr>timeout := a, maxAttempts := b, maxRetry := c\<rparr>) =
   map_sum id (\<lambda>r. r\<lparr>race_options := (race_options r)\<lparr>timeout := a, maxAttempts := b, maxRetry := c\<rparr>\<rparr>) (constructor props)"
  by (simp add: constructor_def split: providers_init.splits)

lemma getProxyPromise_frame:
  "getProxyPromise plat (opts\<lparr>timeout := a, maxAttempts := b, maxRetry := c\<rparr>) prov p w
   = getProxyPromise plat opts prov p w"
  by (simp add: getProxyPromise_def)

lemma getPromise_frame:
  "getPromise plat (opts\<lparr>timeout := a, maxAttempts := b, maxRetry := c\<rparr>) prov h bd w
   = getPromise plat opts prov h bd w"
  by (simp add: getPromise_def getProxyPromise_frame split: option.splits)

lemma request_frame:
  "request plat (opts\<lparr>timeout := a, maxAttempts := b, maxRetry := c\<rparr>) prov w
   = request plat opts prov w"
  by (simp add: request_def getPromise_frame split: sum.splits)

lemma run_loop_frame:
  "run_loop plat (opts\<lparr>timeout := a, maxAttempts := b, maxRetry := c\<rparr>) ps w
   = run_loop plat opts ps w"
  by (induction ps arbitrary: w)
    (simp_all add: request_frame split: prod.splits outcome.splits)

section \<open>Properties of one attempt\<close>




lemma Promise_race_no_body_read:
  "Promise_race tie t pr = (evs, out) \<Longrightarrow> \<not> list_ex is_body_read evs"
  by (cases pr) (auto split: if_splits)

lemma getPromise_no_body_read:
  "getPromise plat opts prov h b w = (evs, out, w') \<Longrightarrow> \<not> list_ex is_body_read evs"
  by (auto simp: getPromise_def getProxyPromise_def
      split: option.splits prod.splits if_splits dest: Promise_race_no_body_read)

lemma parseResponse_not_supported:
  "responseType prov \<notin> {''application/json'', ''application/x-www-form-urlencoded'',
       ''text/plain'', ''text/xml''} \<Longrightarrow>
   \<exists>e. parseResponse res prov = ([], Inl e)"
  by (simp add: parseResponse_def)

lemma request_not_supported:
  assumes "responseType prov \<notin> {''application/json'', ''application/x-www-form-urlencoded'',
       ''text/plain'', ''text/xml''}"
  shows "\<not> list_ex is_body_read (fst (request plat opts prov w))"
    and "fst (snd (request plat opts prov w)) \<noteq> Resolved r"
proof -
  show "\<not> list_ex is_body_read (fst (request plat opts prov w))"
  proof (cases "http plat prov")
    case (Inl e)
    then show ?thesis by (simp add: request_def)
  next
    case (Inr h)
    obtain evs out w' where G: "getPromise plat opts prov h (request_body plat h) w = (evs, out, w')"
      by (cases "getPromise plat opts prov h (request_body plat h) w") auto
    from getPromise_no_body_read [OF G] have nr: "\<not> list_ex is_body_read evs" .
    show ?thesis
    proof (cases out)
      case (Resolved res)
      from parseResponse_not_supported [OF assms, of res]
      obtain e where "parseResponse res prov = ([], Inl e)" by blast
      with Inr G Resolved nr show ?thesis by (simp add: request_def)
    qed (use Inr G nr in \<open>simp_all add: request_def\<close>)
  qed
  show "fst (snd (request plat opts prov w)) \<noteq> Resolved r"
  proof (cases "http plat prov")
    case (Inl e)
    then show ?thesis by (simp add: request_def)
  next
    case (Inr h)
    obtain evs out w' where G: "getPromise plat opts prov h (request_body plat h) w = (evs, out, w')"
      by (cases "getPromise plat opts prov h (request_body plat h) w") auto
    show ?thesis
    proof (cases out)
      case (Resolved res)
      from parseResponse_not_supported [OF assms, of res]
      obtain e where "parseResponse res prov = ([], Inl e)" by blast
      with Inr G Resolved show ?thesis by (simp add: request_def)
    qed (use Inr G in \<open>simp_all add: request_def\<close>)
  qed
qed


lemma request_parse_error:
  "http plat prov = Inr h \<Longrightarrow>
   getPromise plat opts prov h (request_body plat h) w = (evs, Resolved res, w') \<Longrightarrow>
   parseResponse res prov = ([], Inl e) \<Longrightarrow>
   request plat opts prov w = (evs, Rejected e, w')"
  by (simp add: request_def)

section \<open>The claims\<close>

text \<open>
  Claim C1 (the attempt order is positional insertion, priority 0 included). The code
  tests \<open>!provider.priority\<close>, which is also true of the priority 0, so a provider with
  priority 0 is appended instead of being inserted at index 0: with a provider \<open>A\<close> without
  priority followed by a provider \<open>B\<close> of priority 0 the code attempts \<open>A\<close> before \<open>B\<close>,
  where positional insertion gives \<open>B\<close> before \<open>A\<close>. (Lemma
  \<open>orderProviders_positional_insertion\<close> above: the two agree on every list in which no
  provider has the priority 0.)
\<close>

theorem orderProviders_priority_zero:
  "orderProviders [mock_provider ''A'' None ''text/plain'', mock_provider ''B'' (Some 0) ''text/plain'']
     = [mock_provider ''A'' None ''text/plain'', mock_provider ''B'' (Some 0) ''text/plain'']
   \<and> spec_positional_insertion
       [mock_provider ''A'' None ''text/plain'', mock_provider ''B'' (Some 0) ''text/plain'']
     = [mock_provider ''B'' (Some 0) ''text/plain'', mock_provider ''A'' None ''text/plain'']"
  by (simp add: orderProviders_def spec_positional_insertion_def orderProviders_step_def
      spec_order_step_def splice_insert_def mock_provider_def)

text \<open>
  Claim C2 (first success wins, nothing later is attempted). Whenever an attempt made by
  \<open>run\<close> succeeds with the response \<open>r\<close>, \<open>run\<close> resolves with \<open>r\<close>; that attempt is
  the one at some index \<open>i\<close> of the computed order, every attempt before it was rejected,
  the attempts made are exactly those of the first \<open>i + 1\<close> providers of the order (so no
  transport call is issued for a later provider), and \<open>r\<close> is the normalized response
  that \<open>parseResponse\<close> built for that provider.
\<close>

theorem run_first_success:
  assumes "e \<in> set (attempts (run plat this w))" and "att_outcome e = Resolved r"
  shows "result (run plat this w) = Resolved r
    \<and> (\<exists>i < length (orderProviders (race_providers this)).
          map att_provider (attempts (run plat this w))
            = take (Suc i) (orderProviders (race_providers this))
          \<and> attempts (run plat this w) ! i = e
          \<and> (\<forall>j < i. \<exists>err. att_outcome (attempts (run plat this w) ! j) = Rejected err))
    \<and> (\<exists>res evs. parseResponse res (att_provider e) = (evs, Inr r))
    \<and> provider r = name (att_provider e)"
proof -
  let ?ps = "orderProviders (race_providers this)"
  let ?as = "attempts (run_loop plat (race_options this) ?ps w)"
  have R: "run plat this w = run_loop plat (race_options this) ?ps w"
    by (simp add: run_def)
  from assms R have mem: "e \<in> set ?as" by simp
  from run_loop_resolved [OF mem assms(2)]
  have res: "result (run_loop plat (race_options this) ?ps w) = Resolved r"
    and ne: "?as \<noteq> []" and last: "last ?as = e"
    and before: "\<forall>x \<in> set (butlast ?as). \<exists>err. att_outcome x = Rejected err"
    by blast+
  define i where "i = length ?as - 1"
  from ne have len: "length ?as = Suc i" by (simp add: i_def)
  have le: "length ?as \<le> length ?ps" by (rule run_loop_length)
  with len have i_lt: "i < length ?ps" by simp
  have provs: "map att_provider ?as = take (Suc i) ?ps"
    using run_loop_providers [of plat "race_options this" ?ps w] len by simp
  from ne last len have at_i: "?as ! i = e"
    by (simp add: last_conv_nth)
  have earlier: "\<forall>j < i. \<exists>err. att_outcome (?as ! j) = Rejected err"
  proof (intro allI impI)
    fix j assume "j < i"
    with len have "j < length (butlast ?as)" by simp
    then have "butlast ?as ! j \<in> set (butlast ?as)" by (rule nth_mem)
    moreover from \<open>j < length (butlast ?as)\<close> have "butlast ?as ! j = ?as ! j"
      by (simp add: nth_butlast)
    ultimately show "\<exists>err. att_outcome (?as ! j) = Rejected err"
      using before by auto
  qed
  from run_loop_request [OF mem] assms(2)
  obtain w0 w1
    where req: "request plat (race_options this) (att_provider e) w0 = (att_events e, Resolved r, w1)"
    by auto
  from request_resolved_normalized [OF req]
  obtain res evs where parse: "parseResponse res (att_provider e) = (evs, Inr r)"
    by blast
  then have "provider r = name (att_provider e)" by (rule parseResponse_provider)
  with res i_lt provs at_i earlier parse R show ?thesis
    by (simp only:) blast
qed

theorem run_first_success_witness:
  "\<lparr>att_provider = mock_p1, att_events = [ProxyCall mock_p1 False, ReadJson],
     att_outcome = Resolved mock_normalized\<rparr>
     \<in> set (attempts (run mock_platform (mock_race [mock_p0, mock_p1, mock_p2] None (Some True)) 0))
   \<and> result (run mock_platform (mock_race [mock_p0, mock_p1, mock_p2] None (Some True)) 0)
       = Resolved mock_normalized
   \<and> provider mock_normalized = name mock_p1"
proof -
  let ?e = "\<lparr>att_provider = mock_p1, att_events = [ProxyCall mock_p1 False, ReadJson],
     att_outcome = Resolved mock_normalized\<rparr>"
  have h1: "?e \<in> set (attempts (run mock_platform (mock_race [mock_p0, mock_p1, mock_p2] None (Some True)) 0))"
    by (simp add: run_def orderProviders_def orderProviders_step_def splice_insert_def
        request_def http_def request_body_def getPromise_def getProxyPromise_def
        parseResponse_def normalized_def collect_entries_def
        mock_p0_def mock_p1_def mock_p2_def mock_normalized_def mock_provider_def mock_race_def
        mock_init_def mock_platform_def mock_proxy_def mock_response_def)
  have h2: "att_outcome ?e = Resolved mock_normalized" by simp
  from run_first_success [OF h1 h2] h1 show ?thesis by simp
qed










text \<open>
  Claim C7 (unsupported and unrecognized response types). For every response, the
  declared type application/octet-stream fails with "Octet stream not supported yet",
  x-application/protobuf with "Protobuf not supported yet", and a type outside the six
  known ones with "Invalid response type"; an attempt whose transport delivered a response
  is rejected with that error. For none of these types does an attempt ever call a
  body-reading method, and none of them ever succeeds.
\<close>

theorem parseResponse_unsupported:
  "(responseType prov = ''application/octet-stream'' \<longrightarrow>
      parseResponse res prov = ([], Inl (Error ''Octet stream not supported yet''))
      \<and> (http plat prov = Inr h
           \<and> getPromise plat opts prov h (request_body plat h) w = (evs, Resolved res, w') \<longrightarrow>
         request plat opts prov w = (evs, Rejected (Error ''Octet stream not supported yet''), w')))
   \<and> (responseType prov = ''x-application/protobuf'' \<longrightarrow>
      parseResponse res prov = ([], Inl (Error ''Protobuf not supported yet''))
      \<and> (http plat prov = Inr h
           \<and> getPromise plat opts prov h (request_body plat h) w = (evs, Resolved res, w') \<longrightarrow>
         request plat opts prov w = (evs, Rejected (Error ''Protobuf not supported yet''), w')))
   \<and> (responseType prov \<notin> {''application/json'', ''application/octet-stream'',
         ''application/x-www-form-urlencoded'', ''text/plain'', ''x-application/protobuf'',
         ''text/xml''} \<longrightarrow>
      parseResponse res prov = ([], Inl (Error ''Invalid response type''))
      \<and> (http plat prov = Inr h
           \<and> getPromise plat opts prov h (request_body plat h) w = (evs, Resolved res, w') \<longrightarrow>
         request plat opts prov w = (evs, Rejected (Error ''Invalid response type''), w')))
   \<and> (responseType prov \<notin> {''application/json'', ''application/x-www-form-urlencoded'',
         ''text/plain'', ''text/xml''} \<longrightarrow>
      \<not> list_ex is_body_read (fst (request plat opts prov w))
      \<and> (\<forall>r. fst (snd (request plat opts prov w)) \<noteq> Resolved r))"
proof (intro conjI impI allI)
  assume "responseType prov = ''application/octet-stream''"
  then show p: "parseResponse res prov = ([], Inl (Error ''Octet stream not supported yet''))"
    by (simp add: parseResponse_def)
  assume "http plat prov = Inr h
     \<and> getPromise plat opts prov h (request_body plat h) w = (evs, Resolved res, w')"
  with p show "request plat opts prov w = (evs, Rejected (Error ''Octet stream not supported yet''), w')"
    by (simp add: request_parse_error)
next
  assume "responseType prov = ''x-application/protobuf''"
  then show p: "parseResponse res prov = ([], Inl (Error ''Protobuf not supported yet''))"
    by (simp add: parseResponse_def)
  assume "http plat prov = Inr h
     \<and> getPromise plat opts prov h (request_body plat h) w = (evs, Resolved res, w')"
  with p show "request plat opts prov w = (evs, Rejected (Error ''Protobuf not supported yet''), w')"
    by (simp add: request_parse_error)
next
  assume "responseType prov \<notin> {''application/json'', ''application/octet-stream'',
         ''application/x-www-form-urlencoded'', ''text/plain'', ''x-application/protobuf'',
         ''text/xml''}"
  then show p: "parseResponse res prov = ([], Inl (Error ''Invalid response type''))"
    by (simp add: parseResponse_def)
  assume "http plat prov = Inr h
     \<and> getPromise plat opts prov h (request_body plat h) w = (evs, Resolved res, w')"
  with p show "request plat opts prov w = (evs, Rejected (Error ''Invalid response type''), w')"
    by (simp add: request_parse_error)
next
  assume u: "responseType prov \<notin> {''application/json'', ''application/x-www-form-urlencoded'',
         ''text/plain'', ''text/xml''}"
  then show "\<not> list_ex is_body_read (fst (request plat opts prov w))"
    by (rule request_not_supported)
  fix r
  from u show "fst (snd (request plat opts prov w)) \<noteq> Resolved r"
    by (rule request_not_supported)
qed

theorem parseResponse_unsupported_witness:
  "request mock_platform (mock_init [] None None) (mock_provider ''p1'' None ''application/octet-stream'') 0
     = ([ProxyCall (mock_provider ''p1'' None ''application/octet-stream'') False],
        Rejected (Error ''Octet stream not supported yet''), 1)
   \<and> request mock_platform (mock_init [] None None) (mock_provider ''p1'' None ''x-application/protobuf'') 0
     = ([ProxyCall (mock_provider ''p1'' None ''x-application/protobuf'') False],
        Rejected (Error ''Protobuf not supported yet''), 1)
   \<and> request mock_platform (mock_init [] None None) (mock_provider ''p1'' None ''image/png'') 0
     = ([ProxyCall (mock_provider ''p1'' None ''image/png'') False],
        Rejected (Error ''Invalid response type''), 1)"
proof -
  have g: "http mock_platform (mock_provider ''p1'' None rt) = Inr mock_http
      \<and> getPromise mock_platform (mock_init [] None None) (mock_provider ''p1'' None rt) mock_http
          (request_body mock_platform mock_http) 0
        = ([ProxyCall (mock_provider ''p1'' None rt) False], Resolved mock_response, 1)" for rt
    by (simp add: http_def request_body_def getPromise_def getProxyPromise_def mock_init_def
        mock_platform_def mock_proxy_def mock_provider_def mock_http_def)
  have t1: "responseType (mock_provider ''p1'' None ''application/octet-stream'') = ''application/octet-stream''"
    and t2: "responseType (mock_provider ''p1'' None ''x-application/protobuf'') = ''x-application/protobuf''"
    and t3: "responseType (mock_provider ''p1'' None ''image/png'') \<notin> {''application/json'', ''application/octet-stream'',
         ''application/x-www-form-urlencoded'', ''text/plain'', ''x-application/protobuf'',
         ''text/xml''}"
    by (simp_all add: mock_provider_def)
  from parseResponse_unsupported [of "mock_provider ''p1'' None ''application/octet-stream''"
      mock_response mock_platform mock_http "mock_init [] None None" 0
      "[ProxyCall (mock_provider ''p1'' None ''application/octet-stream'') False]" 1] t1 g
  have a: "request mock_platform (mock_init [] None None) (mock_provider ''p1'' None ''application/octet-stream'') 0
     = ([ProxyCall (mock_provider ''p1'' None ''application/octet-stream'') False],
        Rejected (Error ''Octet stream not supported yet''), 1)"
    by blast
  from parseResponse_unsupported [of "mock_provider ''p1'' None ''x-application/protobuf''"
      mock_response mock_platform mock_http "mock_init [] None None" 0
      "[ProxyCall (mock_provider ''p1'' None ''x-application/protobuf'') False]" 1] t2 g
  have b: "request mock_platform (mock_init [] None None) (mock_provider ''p1'' None ''x-application/protobuf'') 0
     = ([ProxyCall (mock_provider ''p1'' None ''x-application/protobuf'') False],
        Rejected (Error ''Protobuf not supported yet''), 1)"
    by blast
  from parseResponse_unsupported [of "mock_provider ''p1'' None ''image/png''"
      mock_response mock_platform mock_http "mock_init [] None None" 0
      "[ProxyCall (mock_provider ''p1'' None ''image/png'') False]" 1] t3 g
  have c: "request mock_platform (mock_init [] None None) (mock_provider ''p1'' None ''image/png'') 0
     = ([ProxyCall (mock_provider ''p1'' None ''image/png'') False],
        Rejected (Error ''Invalid response type''), 1)"
    by blast
  from a b c show ?thesis by simp
qed



text \<open>
  Claim C9 (the options \<open>timeout\<close>, \<open>maxAttempts\<close> and \<open>maxRetry\<close> are never
  consulted). Two configurations that differ only in these three options are both
  refused by the constructor with the same error, or both give coordinators whose
  \<open>run\<close>, from the same world, makes the same attempts in the same order with the same
  result, warnings and final world.
\<close>

theorem run_ignores_timeout_maxAttempts_maxRetry:
  "map_sum id (\<lambda>this. run plat this w)
     (constructor (props\<lparr>timeout := a, maxAttempts := b, maxRetry := c\<rparr>))
   = map_sum id (\<lambda>this. run plat this w) (constructor props)"
  by (cases "constructor props") (simp_all add: constructor_frame run_def run_loop_frame)

text \<open>
  Claim C10 (no providers). A coordinator constructed with an empty array or an empty
  mapping of providers is accepted, and every call of its \<open>run\<close> rejects with the error
  "No providers available" without making any attempt: no transport call is issued and
  the world is unchanged.
\<close>

theorem run_no_providers:
  "map_sum id (\<lambda>this. run plat this w) (constructor (props\<lparr>providers := ProviderArray []\<rparr>))
     = Inr \<lparr>result = Rejected (Error ''No providers available''), attempts = [], warnings = [],
            world = w\<rparr>
   \<and> map_sum id (\<lambda>this. run plat this w)
       (constructor (props\<lparr>providers := ProviderListWithPriority []\<rparr>))
     = Inr \<lparr>result = Rejected (Error ''No providers available''), attempts = [], warnings = [],
            world = w\<rparr>"
  by (simp add: constructor_def run_def orderProviders_def)

end
